theory Spec2Isabelle
  imports Complex_Main "HOL-Library.Sublist"
begin

section \<open>Python values, exceptions and effects\<close>

text \<open>
  The program is \<^verbatim>\<open>src/chatbot/app.py\<close>. It talks to a market-data provider
  (\<^verbatim>\<open>yfinance\<close>), memoises the answer for one hour and formats it.

  Exceptions are values. Only the class matters to the program where \<^verbatim>\<open>hasattr\<close>
  swallows an \<^verbatim>\<open>AttributeError\<close>; every constructor carries \<^verbatim>\<open>str(e)\<close>.
  All of them are subclasses of Python's \<^verbatim>\<open>Exception\<close>, the class that the handler
  of \<^verbatim>\<open>get_stock_data\<close> catches.
\<close>

datatype exn =
    AttributeError string
  | KeyError string
  | IndexError string
  | TypeError string
  | ValueError string
  | Exception string

fun str_exn :: "exn \<Rightarrow> string" where
  "str_exn (AttributeError m) = m"
| "str_exn (KeyError m) = m"
| "str_exn (IndexError m) = m"
| "str_exn (TypeError m) = m"
| "str_exn (ValueError m) = m"
| "str_exn (Exception m) = m"

text \<open>
  A computation runs in a state and either raises or returns:
  \<open>Inl e\<close> is \<^verbatim>\<open>raise e\<close>, \<open>Inr x\<close> is \<^verbatim>\<open>return x\<close>.
\<close>

type_synonym ('a, 's) prog = "'s \<Rightarrow> (exn + 'a) \<times> 's"

definition ret :: "'a \<Rightarrow> ('a, 's) prog" where
  "ret x = (\<lambda>s. (Inr x, s))"

definition then_do :: "('a, 's) prog \<Rightarrow> ('a \<Rightarrow> ('b, 's) prog) \<Rightarrow> ('b, 's) prog" where
  "then_do m f = (\<lambda>s. case m s of (Inl e, s') \<Rightarrow> (Inl e, s') | (Inr x, s') \<Rightarrow> f x s')"

text \<open>\<^verbatim>\<open>try: body  except Exception as e: handler(e)\<close>, where both return a value.\<close>

definition try_except :: "('a, 's) prog \<Rightarrow> (exn \<Rightarrow> 'a) \<Rightarrow> 's \<Rightarrow> 'a \<times> 's" where
  "try_except body handler = (\<lambda>s. case body s of (Inl e, s') \<Rightarrow> (handler e, s') | (Inr x, s') \<Rightarrow> (x, s'))"

text \<open>
  \<^verbatim>\<open>hasattr(obj, name)\<close> evaluates the attribute and answers \<^verbatim>\<open>False\<close> when that raises
  \<^verbatim>\<open>AttributeError\<close>; any other exception passes through.
\<close>

definition hasattr :: "('a, 's) prog \<Rightarrow> (bool, 's) prog" where
  "hasattr getter = (\<lambda>s. case getter s of
       (Inr _, s') \<Rightarrow> (Inr True, s')
     | (Inl (AttributeError _), s') \<Rightarrow> (Inr False, s')
     | (Inl e, s') \<Rightarrow> (Inl e, s'))"

text \<open>The bytes (UTF-8) of the symbols the program prints.\<close>

definition warning_sign :: string where
  "warning_sign = [CHR 0xE2, CHR 0x9A, CHR 0xA0, CHR 0xEF, CHR 0xB8, CHR 0x8F]"





definition apostrophe :: string where
  "apostrophe = [CHR 0x27]"


section \<open>The data model\<close>

text \<open>
  A value of the provider's \<^verbatim>\<open>info\<close> dictionary. A Python float is modelled by the
  real number it denotes: arithmetic is exact, and NaN and the infinities are not values
  of a profile.
\<close>

datatype pyval = PyNone | PyInt int | PyFloat real | PyStr string

fun truthy :: "pyval \<Rightarrow> bool" where
  "truthy PyNone = False"
| "truthy (PyInt n) = (n \<noteq> 0)"
| "truthy (PyFloat x) = (x \<noteq> 0)"
| "truthy (PyStr s) = (s \<noteq> [])"

text \<open>The dictionary \<^verbatim>\<open>info\<close>, in insertion order; \<open>map_of\<close> looks a key up.\<close>

type_synonym profile = "(string \<times> pyval) list"

text \<open>\<^verbatim>\<open>info.get(key, default)\<close> and \<^verbatim>\<open>info.get(key)\<close>.\<close>

definition dict_get :: "profile \<Rightarrow> string \<Rightarrow> pyval \<Rightarrow> pyval" where
  "dict_get info k d = (case map_of info k of None \<Rightarrow> d | Some v \<Rightarrow> v)"

definition dict_get1 :: "profile \<Rightarrow> string \<Rightarrow> pyval" where
  "dict_get1 info k = dict_get info k PyNone"

text \<open>One row of the price history, and the history (a \<^verbatim>\<open>DataFrame\<close>) as its rows.\<close>

record quote =
  Timestamp :: nat
  Open :: real
  High :: real
  Low :: real
  Close :: real
  Volume :: nat

type_synonym dataframe = "quote list"

text \<open>\<^verbatim>\<open>financials\<close> and \<^verbatim>\<open>recommendations\<close> are passed through unread.\<close>

type_synonym table = "pyval list list"

text \<open>
  What \<^verbatim>\<open>get_stock_data\<close> returns: \<^verbatim>\<open>{'error': message}\<close>, or the dictionary of
  \<^verbatim>\<open>history\<close>, \<^verbatim>\<open>info\<close>, \<^verbatim>\<open>financials\<close> and \<^verbatim>\<open>recommendations\<close>, in this order,
  with \<^verbatim>\<open>'error': None\<close>.
\<close>

datatype fetch_result =
    Failure string
  | Success dataframe profile table table


section \<open>The provider\<close>

text \<open>
  The provider is outside the program. Each of its entry points takes the state of the
  world and returns or raises, and may change the world; the program's own state is the
  world together with the list of the calls made so far.
\<close>

record ('w, 't) provider =
  yf_Ticker :: "string \<Rightarrow> 'w \<Rightarrow> (exn + 't) \<times> 'w"
  t_history :: "'t \<Rightarrow> string \<Rightarrow> 'w \<Rightarrow> (exn + dataframe) \<times> 'w"
  yf_download :: "string \<Rightarrow> string \<Rightarrow> 'w \<Rightarrow> (exn + dataframe) \<times> 'w"
  t_info :: "'t \<Rightarrow> 'w \<Rightarrow> (exn + profile) \<times> 'w"
  t_financials :: "'t \<Rightarrow> 'w \<Rightarrow> (exn + table) \<times> 'w"
  t_recommendations :: "'t \<Rightarrow> 'w \<Rightarrow> (exn + table) \<times> 'w"

text \<open>
  The log of the session: each call to the provider with the exception it raised, if any.
  The three attributes of line 28 to 30 are read once by \<^verbatim>\<open>hasattr\<close> and once more
  for their value.
\<close>

datatype attr = Attr_info | Attr_financials | Attr_recommendations

datatype call =
    Call_Ticker string
  | Call_history string
  | Call_download string string
  | Call_hasattr attr
  | Call_getattr attr

type_synonym event = "call \<times> exn option"

type_synonym 'w session = "'w \<times> event list"

definition raised :: "exn + 'a \<Rightarrow> exn option" where
  "raised r = (case r of Inl e \<Rightarrow> Some e | Inr _ \<Rightarrow> None)"

definition invoke :: "call \<Rightarrow> ('w \<Rightarrow> (exn + 'a) \<times> 'w) \<Rightarrow> ('a, 'w session) prog" where
  "invoke c f = (\<lambda>(w, evs). case f w of (r, w') \<Rightarrow> (r, (w', evs @ [(c, raised r)])))"


section \<open>\<^verbatim>\<open>get_stock_data\<close>\<close>

text \<open>The two messages of lines 25 and 40.\<close>

definition no_data_message :: "string \<Rightarrow> string" where
  "no_data_message symbol =
     warning_sign @ '' No stock data found for '' @ apostrophe @ symbol @ apostrophe
       @ ''. Ensure the symbol is correct and try again.''"

definition api_error_message :: "exn \<Rightarrow> string" where
  "api_error_message e = warning_sign @ '' API Error: '' @ str_exn e"

text \<open>\<^verbatim>\<open>stock.attr if hasattr(stock, 'attr') else default\<close>: the attribute is read twice.\<close>

definition attr_or :: "attr \<Rightarrow> ('w \<Rightarrow> (exn + 'a) \<times> 'w) \<Rightarrow> 'a \<Rightarrow> ('a, 'w session) prog" where
  "attr_or a getter d =
     then_do (hasattr (invoke (Call_hasattr a) getter))
       (\<lambda>present. if present then invoke (Call_getattr a) getter else ret d)"

text \<open>Lines 28 to 38: the three attributes, then the dictionary that is returned.\<close>

definition fetch_details :: "('w, 't) provider \<Rightarrow> 't \<Rightarrow> dataframe \<Rightarrow> (fetch_result, 'w session) prog" where
  "fetch_details p stock hist =
     then_do (attr_or Attr_info (t_info p stock) []) (\<lambda>info.
     then_do (attr_or Attr_financials (t_financials p stock) []) (\<lambda>financials.
     then_do (attr_or Attr_recommendations (t_recommendations p stock) []) (\<lambda>recommendations.
     ret (Success hist info financials recommendations))))"

text \<open>Lines 17 to 38: the two retrievals, the test for no data, the details.\<close>

definition fetch_history ::
  "('w, 't) provider \<Rightarrow> string \<Rightarrow> string \<Rightarrow> 't \<Rightarrow> (fetch_result, 'w session) prog" where
  "fetch_history p symbol period stock =
     then_do (invoke (Call_history period) (t_history p stock period)) (\<lambda>hist.
     then_do (if hist = [] then invoke (Call_download symbol period) (yf_download p symbol period)
              else ret hist) (\<lambda>hist.
     if hist = [] then ret (Failure (no_data_message symbol))
     else fetch_details p stock hist))"

text \<open>Lines 16 to 38, the body of the \<^verbatim>\<open>try\<close>.\<close>

definition fetch_body :: "('w, 't) provider \<Rightarrow> string \<Rightarrow> string \<Rightarrow> (fetch_result, 'w session) prog" where
  "fetch_body p symbol period =
     then_do (invoke (Call_Ticker symbol) (yf_Ticker p symbol)) (fetch_history p symbol period)"

text \<open>Lines 14 to 40: the body, and the handler of line 39.\<close>

definition get_stock_data ::
  "('w, 't) provider \<Rightarrow> string \<Rightarrow> string \<Rightarrow> 'w session \<Rightarrow> fetch_result \<times> 'w session" where
  "get_stock_data p symbol period =
     try_except (fetch_body p symbol period) (\<lambda>e. Failure (api_error_message e))"


section \<open>The cache of line 12\<close>

text \<open>
  Modelled from the spec: the memo table behind \<^verbatim>\<open>@st.cache_data(ttl=3600)\<close> is
  library code, not in the repository. The spec (sections 3 and 4.1) gives it as
  entries keyed by (symbol, period), each holding a result and a creation time, live for
  3600 seconds; a live entry is returned without any network access, and a read past the
  TTL is a miss that fetches again. The decorator of line 12 wraps the whole function,
  so whatever \<^verbatim>\<open>get_stock_data\<close> returns is stored, an error result as well. The
  clock is read from the world.
\<close>

definition cache_ttl :: real where
  "cache_ttl = 3600"

type_synonym cache = "string \<times> string \<Rightarrow> (fetch_result \<times> real) option"

definition live :: "real \<Rightarrow> real \<Rightarrow> bool" where
  "live now created = (now < created + cache_ttl)"

definition fetch_and_store ::
  "('w, 't) provider \<Rightarrow> ('w \<Rightarrow> real) \<Rightarrow> string \<Rightarrow> string \<Rightarrow> cache \<Rightarrow> 'w session
     \<Rightarrow> fetch_result \<times> cache \<times> 'w session" where
  "fetch_and_store p clock symbol period c s =
     (case get_stock_data p symbol period s of
        (r, s') \<Rightarrow> (r, c((symbol, period) \<mapsto> (r, clock (fst s'))), s'))"

definition cached_get_stock_data ::
  "('w, 't) provider \<Rightarrow> ('w \<Rightarrow> real) \<Rightarrow> string \<Rightarrow> string \<Rightarrow> cache \<Rightarrow> 'w session
     \<Rightarrow> fetch_result \<times> cache \<times> 'w session" where
  "cached_get_stock_data p clock symbol period c s =
     (case c (symbol, period) of
        Some (r, created) \<Rightarrow>
          if live (clock (fst s)) created then (r, c, s)
          else fetch_and_store p clock symbol period c s
      | None \<Rightarrow> fetch_and_store p clock symbol period c s)"


section \<open>Formatting\<close>

text \<open>Computations without state: \<open>Inl e\<close> raises, \<open>and_then\<close> is sequencing.\<close>

definition and_then :: "exn + 'a \<Rightarrow> ('a \<Rightarrow> exn + 'b) \<Rightarrow> exn + 'b" where
  "and_then m f = (case m of Inl e \<Rightarrow> Inl e | Inr x \<Rightarrow> f x)"

text \<open>Decimal digits of a natural number and of an integer: \<^verbatim>\<open>str(n)\<close>.\<close>

definition digit_char :: "nat \<Rightarrow> char" where
  "digit_char d = ''0123456789'' ! d"

fun str_nat :: "nat \<Rightarrow> string" where
  "str_nat n = (if n < 10 then [digit_char n] else str_nat (n div 10) @ [digit_char (n mod 10)])"

declare str_nat.simps [simp del]

definition str_int :: "int \<Rightarrow> string" where
  "str_int i = (if i < 0 then ''-'' @ str_nat (nat (- i)) else str_nat (nat i))"

text \<open>
  The format specifier \<^verbatim>\<open>,\<close> on an integer: the digits in groups of three from the
  right, with a comma between the groups.
\<close>

definition three_digits :: "nat \<Rightarrow> string" where
  "three_digits m = [digit_char (m div 100), digit_char (m div 10 mod 10), digit_char (m mod 10)]"

fun comma_nat :: "nat \<Rightarrow> string" where
  "comma_nat n =
     (if n < 1000 then str_nat n else comma_nat (n div 1000) @ '','' @ three_digits (n mod 1000))"

declare comma_nat.simps [simp del]

definition comma_int :: "int \<Rightarrow> string" where
  "comma_int i = (if i < 0 then ''-'' @ comma_nat (nat (- i)) else comma_nat (nat i))"

text \<open>
  The format specifier \<^verbatim>\<open>.2f\<close> on a float: the value rounded to two decimals, a tie
  going to the even neighbour; the sign is kept when the value rounds to zero.
\<close>

definition round_half_even :: "real \<Rightarrow> int" where
  "round_half_even x =
     (let f = \<lfloor>x\<rfloor>; d = x - of_int f
      in if d < 1 / 2 then f else if 1 / 2 < d then f + 1 else if even f then f else f + 1)"

definition format_2f :: "real \<Rightarrow> string" where
  "format_2f x =
     (let q = nat (round_half_even (\<bar>x\<bar> * 100))
      in (if x < 0 then ''-'' else []) @ str_nat (q div 100) @ ''.''
           @ [digit_char (q div 10 mod 10), digit_char (q mod 10)])"


text \<open>
  The shortest decimal that reads back as the same float is not a function that exact
  arithmetic gives, so the two renderings of a float that need it are parameters:
  \<^verbatim>\<open>str(x)\<close> and \<^verbatim>\<open>format(x, ',')\<close>.
\<close>

record float_format =
  float_str :: "real \<Rightarrow> string"
  float_comma :: "real \<Rightarrow> string"

definition comma_with_str :: exn where
  "comma_with_str =
     ValueError (''Cannot specify '' @ apostrophe @ '','' @ apostrophe @ '' with ''
                  @ apostrophe @ ''s'' @ apostrophe @ ''.'')"

definition none_format :: exn where
  "none_format = TypeError ''unsupported format string passed to NoneType.__format__''"

definition f_with_str :: exn where
  "f_with_str =
     ValueError (''Unknown format code '' @ apostrophe @ ''f'' @ apostrophe
                  @ '' for object of type '' @ apostrophe @ ''str'' @ apostrophe)"

definition none_times_int :: exn where
  "none_times_int =
     TypeError (''unsupported operand type(s) for *: '' @ apostrophe @ ''NoneType'' @ apostrophe
                 @ '' and '' @ apostrophe @ ''int'' @ apostrophe)"

text \<open>\<^verbatim>\<open>f"{v:,}"\<close>\<close>

fun format_comma :: "float_format \<Rightarrow> pyval \<Rightarrow> exn + string" where
  "format_comma F (PyInt n) = Inr (comma_int n)"
| "format_comma F (PyFloat x) = Inr (float_comma F x)"
| "format_comma F (PyStr s) = Inl comma_with_str"
| "format_comma F PyNone = Inl none_format"

text \<open>\<^verbatim>\<open>f"{v:.2f}"\<close>\<close>

fun format_fixed2 :: "pyval \<Rightarrow> exn + string" where
  "format_fixed2 (PyInt n) = Inr (format_2f (of_int n))"
| "format_fixed2 (PyFloat x) = Inr (format_2f x)"
| "format_fixed2 (PyStr s) = Inl f_with_str"
| "format_fixed2 PyNone = Inl none_format"


text \<open>\<^verbatim>\<open>v * 100\<close>; on a string it is repetition.\<close>

fun times_100 :: "pyval \<Rightarrow> exn + pyval" where
  "times_100 (PyInt n) = Inr (PyInt (n * 100))"
| "times_100 (PyFloat x) = Inr (PyFloat (x * 100))"
| "times_100 (PyStr s) = Inr (PyStr (concat (replicate 100 s)))"
| "times_100 PyNone = Inl none_times_int"


section \<open>\<^verbatim>\<open>display_company_info\<close>\<close>

text \<open>
  The function returns a sentence or the table built from the dictionary \<^verbatim>\<open>metrics\<close>,
  one row for each key, in the order of lines 68 to 73.
\<close>

datatype display = Message string | Table "(string \<times> pyval) list"

definition not_available :: pyval where
  "not_available = PyStr ''N/A''"

text \<open>Line 70.\<close>

definition market_cap_field :: "float_format \<Rightarrow> profile \<Rightarrow> exn + pyval" where
  "market_cap_field F info =
     (if truthy (dict_get1 info ''marketCap'')
      then and_then (format_comma F (dict_get info ''marketCap'' not_available))
             (\<lambda>s. Inr (PyStr (''$'' @ s)))
      else Inr not_available)"

text \<open>Line 73.\<close>

definition dividend_yield_field :: "profile \<Rightarrow> exn + pyval" where
  "dividend_yield_field info =
     (if truthy (dict_get1 info ''dividendYield'')
      then and_then (times_100 (dict_get info ''dividendYield'' (PyInt 0)))
             (\<lambda>v. and_then (format_fixed2 v) (\<lambda>s. Inr (PyStr (s @ ''%''))))
      else Inr (PyStr ''0%''))"

definition display_company_info :: "float_format \<Rightarrow> profile \<Rightarrow> exn + display" where
  "display_company_info F info =
     (if info = [] then Inr (Message ''No company information available'')
      else
        and_then (market_cap_field F info) (\<lambda>market_cap.
        and_then (dividend_yield_field info) (\<lambda>dividend_yield.
        Inr (Table
          [(''Sector'', dict_get info ''sector'' not_available),
           (''Industry'', dict_get info ''industry'' not_available),
           (''Market Cap'', market_cap),
           (''PE Ratio'', dict_get info ''trailingPE'' not_available),
           (''EPS'', dict_get info ''trailingEps'' not_available),
           (''Dividend Yield'', dividend_yield)]))))"


section \<open>\<^verbatim>\<open>generate_investment_analysis\<close>\<close>














section \<open>Predicates on the session log\<close>

fun is_download :: "event \<Rightarrow> bool" where
  "is_download (Call_download _ _, _) = True"
| "is_download _ = False"

fun absorbed :: "event \<Rightarrow> bool" where
  "absorbed (_, None) = True"
| "absorbed (Call_hasattr _, Some (AttributeError _)) = True"
| "absorbed (_, Some _) = False"

text \<open>What one run of a computation adds to the log.\<close>

definition outcome_ok :: "(event \<Rightarrow> bool) \<Rightarrow> ('a \<Rightarrow> bool) \<Rightarrow> exn + 'a \<Rightarrow> event list \<Rightarrow> bool" where
  "outcome_ok P Q res cs =
     (list_all P cs \<and>
      (case res of
         Inr x \<Rightarrow> list_all absorbed cs \<and> Q x
       | Inl e \<Rightarrow> cs \<noteq> [] \<and> list_all absorbed (butlast cs) \<and> snd (last cs) = Some e
                  \<and> \<not> absorbed (last cs)))"

definition run_spec :: "(event \<Rightarrow> bool) \<Rightarrow> ('a, 'w session) prog \<Rightarrow> ('a \<Rightarrow> bool) \<Rightarrow> bool" where
  "run_spec P m Q = (\<forall>w evs. \<exists>res w' cs. m (w, evs) = (res, (w', evs @ cs)) \<and> outcome_ok P Q res cs)"

definition fetched :: "string \<Rightarrow> fetch_result \<Rightarrow> bool" where
  "fetched symbol r =
     (r = Failure (no_data_message symbol) \<or> (\<exists>h i f r'. h \<noteq> [] \<and> r = Success h i f r'))"


section \<open>Predicates on profile values\<close>

fun nonempty_str :: "pyval \<Rightarrow> bool" where
  "nonempty_str (PyStr s) = (s \<noteq> [])"
| "nonempty_str _ = False"



section \<open>Sample providers\<close>

text \<open>
  Small providers for the concrete runs below. The world is the time in seconds, the
  ticker object is the symbol, and each retrieval takes one second.
\<close>

definition flat_quote :: quote where
  "flat_quote = \<lparr>Timestamp = 0, Open = 100, High = 100, Low = 100, Close = 100, Volume = 1\<rparr>"

definition steady_provider :: "(real, string) provider" where
  "steady_provider =
     \<lparr>yf_Ticker = (\<lambda>symbol w. (Inr symbol, w + 1)),
      t_history = (\<lambda>stock period w. (Inr [flat_quote], w + 1)),
      yf_download = (\<lambda>symbol period w. (Inr [flat_quote], w + 1)),
      t_info = (\<lambda>stock w. (Inr [(''sector'', PyStr ''Technology'')], w)),
      t_financials = (\<lambda>stock w. (Inr [], w)),
      t_recommendations = (\<lambda>stock w. (Inr [], w))\<rparr>"

text \<open>The per-symbol interface has nothing, the bulk download has.\<close>

definition fallback_provider :: "(real, string) provider" where
  "fallback_provider = steady_provider\<lparr>t_history := (\<lambda>stock period w. (Inr [], w + 1))\<rparr>"

text \<open>Neither interface has anything.\<close>

definition unknown_provider :: "(real, string) provider" where
  "unknown_provider = fallback_provider\<lparr>yf_download := (\<lambda>symbol period w. (Inr [], w + 1))\<rparr>"

text \<open>The history is there, reading \<^verbatim>\<open>info\<close> fails with a rate limit.\<close>

definition limited_provider :: "(real, string) provider" where
  "limited_provider =
     steady_provider\<lparr>t_info := (\<lambda>stock w. (Inl (Exception ''Too Many Requests''), w))\<rparr>"

text \<open>The history is there, reading \<^verbatim>\<open>info\<close> raises \<^verbatim>\<open>AttributeError\<close>.\<close>

definition bare_provider :: "(real, string) provider" where
  "bare_provider =
     steady_provider\<lparr>t_info := (\<lambda>stock w. (Inl (AttributeError ''info''), w))\<rparr>"

text \<open>The clock reads the world; the result and the cache after one call at time 0.\<close>

definition wall_clock :: "real \<Rightarrow> real" where
  "wall_clock w = w"

definition steady_result :: fetch_result where
  "steady_result = Success [flat_quote] [(''sector'', PyStr ''Technology'')] [] []"

definition steady_events :: "event list" where
  "steady_events =
     [(Call_Ticker ''AAPL'', None), (Call_history ''1y'', None),
      (Call_hasattr Attr_info, None), (Call_getattr Attr_info, None),
      (Call_hasattr Attr_financials, None), (Call_getattr Attr_financials, None),
      (Call_hasattr Attr_recommendations, None), (Call_getattr Attr_recommendations, None)]"

definition steady_cache :: cache where
  "steady_cache = Map.empty((''AAPL'', ''1y'') \<mapsto> (steady_result, 2))"

text \<open>
  A rendering of floats for the concrete runs. It is the one of Python for whole numbers
  of moderate size; none of the runs below renders a float.
\<close>

definition whole_floats :: float_format where
  "whole_floats =
     \<lparr>float_str = (\<lambda>x. str_int \<lfloor>x\<rfloor> @ ''.0''),
      float_comma = (\<lambda>x. comma_int \<lfloor>x\<rfloor> @ ''.0'')\<rparr>"


section \<open>What a run of \<^verbatim>\<open>get_stock_data\<close> adds to the log\<close>

lemma run_spec_ret: "Q x \<Longrightarrow> run_spec P (ret x) Q"
  by (simp add: run_spec_def ret_def outcome_ok_def)

lemma run_spec_invoke:
  assumes "\<And>e. P (c, e)" and "\<And>a. c \<noteq> Call_hasattr a"
  shows "run_spec P (invoke c f) (\<lambda>_. True)"
  unfolding run_spec_def
proof (intro allI)
  fix w evs
  obtain r w' where f: "f w = (r, w')" by (cases "f w")
  have na: "\<not> absorbed (c, Some e)" for e
    using assms(2) by (cases c) auto
  have "invoke c f (w, evs) = (r, (w', evs @ [(c, raised r)]))"
    using f by (simp add: invoke_def)
  moreover have "outcome_ok P (\<lambda>_. True) r [(c, raised r)]"
    using assms(1) na by (cases r) (simp_all add: outcome_ok_def raised_def)
  ultimately show "\<exists>res w' cs. invoke c f (w, evs) = (res, w', evs @ cs) \<and> outcome_ok P (\<lambda>_. True) res cs"
    by blast
qed

lemma run_spec_hasattr:
  assumes "\<And>e. P (Call_hasattr a, e)"
  shows "run_spec P (hasattr (invoke (Call_hasattr a) f)) (\<lambda>_. True)"
  unfolding run_spec_def
proof (intro allI)
  fix w evs
  obtain r w' where f: "f w = (r, w')" by (cases "f w")
  let ?m = "hasattr (invoke (Call_hasattr a) f)"
  have run: "\<exists>res. ?m (w, evs) = (res, (w', evs @ [(Call_hasattr a, raised r)]))
      \<and> outcome_ok P (\<lambda>_. True) res [(Call_hasattr a, raised r)]"
  proof (cases r)
    case (Inr v)
    then show ?thesis using f assms
      by (simp add: hasattr_def invoke_def raised_def outcome_ok_def)
  next
    case (Inl e)
    then show ?thesis using f assms
      by (cases e) (simp_all add: hasattr_def invoke_def raised_def outcome_ok_def)
  qed
  then show "\<exists>res w' cs. ?m (w, evs) = (res, w', evs @ cs) \<and> outcome_ok P (\<lambda>_. True) res cs"
    by blast
qed

lemma outcome_ok_append:
  assumes "outcome_ok P Q1 (Inr x) cs1" and "outcome_ok P Q res cs2"
  shows "outcome_ok P Q res (cs1 @ cs2)"
proof (cases res)
  case (Inr y)
  then show ?thesis using assms by (simp add: outcome_ok_def)
next
  case (Inl e)
  then have "cs2 \<noteq> []" using assms(2) by (simp add: outcome_ok_def)
  then show ?thesis using assms Inl
    by (simp add: outcome_ok_def butlast_append)
qed

lemma run_spec_then_do:
  assumes m: "run_spec P m Q1" and f: "\<And>x. Q1 x \<Longrightarrow> run_spec P (f x) Q"
  shows "run_spec P (then_do m f) Q"
  unfolding run_spec_def
proof (intro allI)
  fix w evs
  from m obtain res w1 cs1 where r1: "m (w, evs) = (res, (w1, evs @ cs1))" and o1: "outcome_ok P Q1 res cs1"
    unfolding run_spec_def by blast
  show "\<exists>res w' cs. then_do m f (w, evs) = (res, w', evs @ cs) \<and> outcome_ok P Q res cs"
  proof (cases res)
    case (Inl e)
    then have "then_do m f (w, evs) = (Inl e, (w1, evs @ cs1))"
      using r1 by (simp add: then_do_def)
    moreover have "outcome_ok P Q (Inl e) cs1"
      using o1 Inl by (simp add: outcome_ok_def)
    ultimately show ?thesis by blast
  next
    case (Inr x)
    then have "Q1 x" using o1 by (simp add: outcome_ok_def)
    from f [OF this] obtain res2 w2 cs2 where
      r2: "f x (w1, evs @ cs1) = (res2, (w2, (evs @ cs1) @ cs2))" and o2: "outcome_ok P Q res2 cs2"
      unfolding run_spec_def by blast
    have "then_do m f (w, evs) = (res2, (w2, evs @ (cs1 @ cs2)))"
      using r1 r2 Inr by (simp add: then_do_def)
    moreover have "outcome_ok P Q res2 (cs1 @ cs2)"
      using o1 o2 unfolding Inr by (rule outcome_ok_append)
    ultimately show ?thesis by blast
  qed
qed

lemma outcome_ok_weaken:
  "outcome_ok P Q1 res cs \<Longrightarrow> (\<And>x. Q1 x \<Longrightarrow> Q x) \<Longrightarrow> outcome_ok P Q res cs"
  by (cases res) (simp_all add: outcome_ok_def)

lemma run_spec_weaken:
  assumes "run_spec P m Q1" and "\<And>x. Q1 x \<Longrightarrow> Q x"
  shows "run_spec P m Q"
  unfolding run_spec_def
proof (intro allI)
  fix w evs
  from assms(1) obtain res w' cs where r: "m (w, evs) = (res, (w', evs @ cs))"
    and o: "outcome_ok P Q1 res cs"
    unfolding run_spec_def by blast
  have "outcome_ok P Q res cs"
    by (rule outcome_ok_weaken [OF o]) (rule assms(2))
  with r show "\<exists>res w' cs. m (w, evs) = (res, w', evs @ cs) \<and> outcome_ok P Q res cs"
    by blast
qed

lemma run_spec_attr_or:
  assumes "\<And>e. P (Call_hasattr a, e)" and "\<And>e. P (Call_getattr a, e)"
  shows "run_spec P (attr_or a f d) (\<lambda>_. True)"
  unfolding attr_or_def
proof (rule run_spec_then_do [OF run_spec_hasattr])
  show "P (Call_hasattr a, e)" for e by (rule assms)
  show "run_spec P (if x then invoke (Call_getattr a) f else ret d) (\<lambda>_. True)" for x
    by (cases x) (simp_all add: assms run_spec_invoke run_spec_ret)
qed

lemma run_spec_fetch_details:
  assumes "\<And>a e. P (Call_hasattr a, e)" and "\<And>a e. P (Call_getattr a, e)"
  shows "run_spec P (fetch_details p stock hist) (\<lambda>r. \<exists>i f r'. r = Success hist i f r')"
  unfolding fetch_details_def
proof (rule run_spec_then_do [OF run_spec_attr_or])
  fix i :: profile
  show "run_spec P
          (then_do (attr_or Attr_financials (t_financials p stock) [])
             (\<lambda>financials. then_do (attr_or Attr_recommendations (t_recommendations p stock) [])
                (\<lambda>recommendations. ret (Success hist i financials recommendations))))
          (\<lambda>r. \<exists>i f r'. r = Success hist i f r')"
  proof (rule run_spec_then_do [OF run_spec_attr_or])
    fix f :: table
    show "run_spec P
            (then_do (attr_or Attr_recommendations (t_recommendations p stock) [])
               (\<lambda>recommendations. ret (Success hist i f recommendations)))
            (\<lambda>r. \<exists>i f r'. r = Success hist i f r')"
      by (rule run_spec_then_do [OF run_spec_attr_or]) (simp_all add: assms run_spec_ret)
  qed (simp_all add: assms)
qed (simp_all add: assms)

lemma run_spec_fetch_history:
  "run_spec (\<lambda>_. True) (fetch_history p symbol period stock) (fetched symbol)"
  unfolding fetch_history_def
proof (rule run_spec_then_do [OF run_spec_invoke])
  fix hist :: dataframe
  show "run_spec (\<lambda>_. True)
          (then_do (if hist = [] then invoke (Call_download symbol period) (yf_download p symbol period)
                    else ret hist)
             (\<lambda>hist. if hist = [] then ret (Failure (no_data_message symbol))
                      else fetch_details p stock hist))
          (fetched symbol)"
  proof (rule run_spec_then_do [where ?Q1.0 = "\<lambda>_. True"])
    show "run_spec (\<lambda>_. True)
            (if hist = [] then invoke (Call_download symbol period) (yf_download p symbol period)
             else ret hist) (\<lambda>_. True)"
      by (simp add: run_spec_invoke run_spec_ret)
  next
    fix h :: dataframe
    show "run_spec (\<lambda>_. True)
            (if h = [] then ret (Failure (no_data_message symbol)) else fetch_details p stock h)
            (fetched symbol)"
    proof (cases "h = []")
      case True
      then show ?thesis by (simp add: run_spec_ret fetched_def)
    next
      case False
      have "run_spec (\<lambda>_. True) (fetch_details p stock h) (fetched symbol)"
        by (rule run_spec_weaken [OF run_spec_fetch_details]) (use False in \<open>auto simp: fetched_def\<close>)
      with False show ?thesis by simp
    qed
  qed
qed simp_all

lemma run_spec_fetch_body:
  "run_spec (\<lambda>_. True) (fetch_body p symbol period) (fetched symbol)"
  unfolding fetch_body_def
  by (rule run_spec_then_do [OF run_spec_invoke]) (simp_all add: run_spec_fetch_history)

lemma get_stock_data_spec:
  "\<exists>r w' cs. get_stock_data p symbol period (w, evs) = (r, (w', evs @ cs)) \<and>
     (if list_all absorbed cs then fetched symbol r
      else list_all absorbed (butlast cs) \<and>
           (\<exists>e. snd (last cs) = Some e \<and> r = Failure (api_error_message e)))"
proof -
  from run_spec_fetch_body [of p symbol period] obtain res w' cs where
    run: "fetch_body p symbol period (w, evs) = (res, (w', evs @ cs))"
    and ok: "outcome_ok (\<lambda>_. True) (fetched symbol) res cs"
    unfolding run_spec_def by blast
  show ?thesis
  proof (cases res)
    case (Inr r)
    then have "get_stock_data p symbol period (w, evs) = (r, (w', evs @ cs))"
      using run by (simp add: get_stock_data_def try_except_def)
    moreover have "list_all absorbed cs" "fetched symbol r"
      using ok Inr by (simp_all add: outcome_ok_def)
    ultimately show ?thesis by auto
  next
    case (Inl e)
    then have "get_stock_data p symbol period (w, evs) = (Failure (api_error_message e), (w', evs @ cs))"
      using run by (simp add: get_stock_data_def try_except_def)
    moreover have "cs \<noteq> []" "list_all absorbed (butlast cs)" "snd (last cs) = Some e" "\<not> absorbed (last cs)"
      using ok Inl by (simp_all add: outcome_ok_def)
    moreover from this have "\<not> list_all absorbed cs"
      using list_all_append [of absorbed "butlast cs" "[last cs]"] by simp
    ultimately show ?thesis by auto
  qed
qed

lemmas sample_defs = steady_provider_def fallback_provider_def unknown_provider_def
  limited_provider_def bare_provider_def

lemmas run_defs = get_stock_data_def try_except_def fetch_body_def fetch_history_def
  fetch_details_def attr_or_def hasattr_def invoke_def then_do_def ret_def raised_def

lemma then_do_invoke_Inr:
  "f w = (Inr x, w') \<Longrightarrow> then_do (invoke c f) g (w, evs) = g x (w', evs @ [(c, None)])"
  by (simp add: then_do_def invoke_def raised_def)

lemma then_do_invoke_Inl:
  "f w = (Inl e, w') \<Longrightarrow> then_do (invoke c f) g (w, evs) = (Inl e, (w', evs @ [(c, Some e)]))"
  by (simp add: then_do_def invoke_def raised_def)

lemma get_stock_data_calls_Ticker:
  "\<exists>r w' e cs. get_stock_data p symbol period (w, evs) = (r, (w', evs @ (Call_Ticker symbol, e) # cs))"
proof -
  obtain res w1 where t: "yf_Ticker p symbol w = (res, w1)" by (cases "yf_Ticker p symbol w")
  show ?thesis
  proof (cases res)
    case (Inl e)
    then have "fetch_body p symbol period (w, evs) = (Inl e, (w1, evs @ [(Call_Ticker symbol, Some e)]))"
      using t by (simp add: fetch_body_def then_do_invoke_Inl)
    then show ?thesis by (simp add: get_stock_data_def try_except_def)
  next
    case (Inr stock)
    from run_spec_fetch_history [of p symbol period stock] obtain res2 w2 cs where
      "fetch_history p symbol period stock (w1, evs @ [(Call_Ticker symbol, None)]) =
         (res2, (w2, (evs @ [(Call_Ticker symbol, None)]) @ cs))"
      unfolding run_spec_def by blast
    then have "fetch_body p symbol period (w, evs) = (res2, (w2, evs @ (Call_Ticker symbol, None) # cs))"
      using t Inr by (simp add: fetch_body_def then_do_invoke_Inr)
    then show ?thesis by (cases res2) (simp_all add: get_stock_data_def try_except_def)
  qed
qed

lemma then_do_ret: "then_do (ret x) g s = g x s"
  by (simp add: then_do_def ret_def)

lemma fetch_details_run:
  "\<exists>res w' cs. fetch_details p stock h (w, evs) = (res, (w', evs @ cs))
     \<and> \<not> list_ex is_download cs
     \<and> (case res of Inr r \<Rightarrow> list_all absorbed cs \<and> (\<exists>i f r'. r = Success h i f r')
         | Inl e \<Rightarrow> \<not> list_all absorbed cs)"
proof -
  have "run_spec (\<lambda>ev. \<not> is_download ev) (fetch_details p stock h) (\<lambda>r. \<exists>i f r'. r = Success h i f r')"
    by (rule run_spec_fetch_details) simp_all
  then obtain res w' cs where run: "fetch_details p stock h (w, evs) = (res, (w', evs @ cs))"
    and ok: "outcome_ok (\<lambda>ev. \<not> is_download ev) (\<lambda>r. \<exists>i f r'. r = Success h i f r') res cs"
    unfolding run_spec_def by blast
  have nd: "\<not> list_ex is_download cs"
    using ok by (simp add: outcome_ok_def list_all_iff list_ex_iff)
  have "case res of Inr r \<Rightarrow> list_all absorbed cs \<and> (\<exists>i f r'. r = Success h i f r')
         | Inl e \<Rightarrow> \<not> list_all absorbed cs"
  proof (cases res)
    case (Inr r)
    then show ?thesis using ok by (simp add: outcome_ok_def)
  next
    case (Inl e)
    then have "cs \<noteq> []" "\<not> absorbed (last cs)" using ok by (simp_all add: outcome_ok_def)
    then have "\<not> list_all absorbed cs"
      using list_all_append [of absorbed "butlast cs" "[last cs]"] by simp
    then show ?thesis using Inl by simp
  qed
  with run nd show ?thesis by blast
qed

lemma get_stock_data_after_history:
  assumes "yf_Ticker p symbol w = (Inr stock, w1)"
    and "t_history p stock period w1 = (Inr h, w2)"
    and "h \<noteq> []"
  shows "\<exists>r w' cs. get_stock_data p symbol period (w, evs) = (r, (w', evs @ cs))
           \<and> \<not> list_ex is_download cs
           \<and> (list_all absorbed cs \<longrightarrow> (\<exists>i f r'. r = Success h i f r'))"
proof -
  let ?pre = "[(Call_Ticker symbol, None), (Call_history period, None)]"
  have body: "fetch_body p symbol period (w, evs) = fetch_details p stock h (w2, evs @ ?pre)"
    unfolding fetch_body_def fetch_history_def
    using assms by (simp add: then_do_invoke_Inr then_do_ret)
  from fetch_details_run [of p stock h w2 "evs @ ?pre"] obtain res w' cs where
    run: "fetch_details p stock h (w2, evs @ ?pre) = (res, (w', (evs @ ?pre) @ cs))"
    and nd: "\<not> list_ex is_download cs"
    and out: "case res of Inr r \<Rightarrow> list_all absorbed cs \<and> (\<exists>i f r'. r = Success h i f r')
         | Inl e \<Rightarrow> \<not> list_all absorbed cs"
    by blast
  show ?thesis
  proof (cases res)
    case (Inr r)
    then have "get_stock_data p symbol period (w, evs) = (r, (w', evs @ (?pre @ cs)))"
      using body run by (simp add: get_stock_data_def try_except_def)
    moreover have "\<not> list_ex is_download (?pre @ cs)" using nd by simp
    moreover have "\<exists>i f r'. r = Success h i f r'" using out Inr by simp
    ultimately show ?thesis by blast
  next
    case (Inl e)
    then have "get_stock_data p symbol period (w, evs) =
        (Failure (api_error_message e), (w', evs @ (?pre @ cs)))"
      using body run by (simp add: get_stock_data_def try_except_def)
    moreover have "\<not> list_ex is_download (?pre @ cs)" using nd by simp
    moreover have "\<not> list_all absorbed (?pre @ cs)" using out Inl by simp
    ultimately show ?thesis by blast
  qed
qed

lemma get_stock_data_after_download:
  assumes "yf_Ticker p symbol w = (Inr stock, w1)"
    and "t_history p stock period w1 = (Inr [], w2)"
    and "yf_download p symbol period w2 = (Inr h, w3)"
    and "h \<noteq> []"
  shows "\<exists>r w' cs. get_stock_data p symbol period (w, evs) = (r, (w', evs @ cs))
           \<and> (list_all absorbed cs \<longrightarrow> (\<exists>i f r'. r = Success h i f r'))"
proof -
  let ?pre = "[(Call_Ticker symbol, None), (Call_history period, None),
               (Call_download symbol period, None)]"
  have body: "fetch_body p symbol period (w, evs) = fetch_details p stock h (w3, evs @ ?pre)"
    unfolding fetch_body_def fetch_history_def
    using assms by (simp add: then_do_invoke_Inr)
  from fetch_details_run [of p stock h w3 "evs @ ?pre"] obtain res w' cs where
    run: "fetch_details p stock h (w3, evs @ ?pre) = (res, (w', (evs @ ?pre) @ cs))"
    and out: "case res of Inr r \<Rightarrow> list_all absorbed cs \<and> (\<exists>i f r'. r = Success h i f r')
         | Inl e \<Rightarrow> \<not> list_all absorbed cs"
    by blast
  show ?thesis
  proof (cases res)
    case (Inr r)
    then have "get_stock_data p symbol period (w, evs) = (r, (w', evs @ (?pre @ cs)))"
      using body run by (simp add: get_stock_data_def try_except_def)
    moreover have "\<exists>i f r'. r = Success h i f r'" using out Inr by simp
    ultimately show ?thesis by blast
  next
    case (Inl e)
    then have "get_stock_data p symbol period (w, evs) =
        (Failure (api_error_message e), (w', evs @ (?pre @ cs)))"
      using body run by (simp add: get_stock_data_def try_except_def)
    moreover have "\<not> list_all absorbed (?pre @ cs)" using out Inl by simp
    ultimately show ?thesis by blast
  qed
qed


section \<open>The last value of a rolling mean\<close>








section \<open>The two formatted fields of the table\<close>

lemma market_cap_field_cases:
  "market_cap_field F info =
     (case map_of info ''marketCap'' of
        None \<Rightarrow> Inr not_available
      | Some v \<Rightarrow> if truthy v
                  then and_then (format_comma F v) (\<lambda>s. Inr (PyStr (''$'' @ s)))
                  else Inr not_available)"
  by (simp add: market_cap_field_def dict_get1_def dict_get_def split: option.splits)

lemma dividend_yield_field_cases:
  "dividend_yield_field info =
     (case map_of info ''dividendYield'' of
        None \<Rightarrow> Inr (PyStr ''0%'')
      | Some v \<Rightarrow> if truthy v
                  then and_then (times_100 v)
                         (\<lambda>v. and_then (format_fixed2 v) (\<lambda>s. Inr (PyStr (s @ ''%''))))
                  else Inr (PyStr ''0%''))"
  by (simp add: dividend_yield_field_def dict_get1_def dict_get_def split: option.splits)

lemma market_cap_field_returns:
  assumes "\<not> nonempty_str (dict_get1 info ''marketCap'')"
  shows "\<exists>v. market_cap_field F info = Inr v"
proof (cases "map_of info ''marketCap''")
  case None
  then show ?thesis by (simp add: market_cap_field_cases)
next
  case (Some v)
  with assms have "\<not> nonempty_str v" by (simp add: dict_get1_def dict_get_def)
  then show ?thesis using Some
    by (cases v) (simp_all add: market_cap_field_cases and_then_def)
qed

lemma dividend_yield_field_returns:
  assumes "\<not> nonempty_str (dict_get1 info ''dividendYield'')"
  shows "\<exists>v. dividend_yield_field info = Inr v"
proof (cases "map_of info ''dividendYield''")
  case None
  then show ?thesis by (simp add: dividend_yield_field_cases)
next
  case (Some v)
  with assms have "\<not> nonempty_str v" by (simp add: dict_get1_def dict_get_def)
  then show ?thesis using Some
    by (cases v) (simp_all add: dividend_yield_field_cases and_then_def)
qed

lemma display_nonempty:
  assumes "info \<noteq> []"
    and "market_cap_field F info = Inr market_cap"
    and "dividend_yield_field info = Inr dividend_yield"
  shows "display_company_info F info =
     Inr (Table
          [(''Sector'', dict_get info ''sector'' not_available),
           (''Industry'', dict_get info ''industry'' not_available),
           (''Market Cap'', market_cap),
           (''PE Ratio'', dict_get info ''trailingPE'' not_available),
           (''EPS'', dict_get info ''trailingEps'' not_available),
           (''Dividend Yield'', dividend_yield)])"
  using assms by (simp add: display_company_info_def and_then_def)


section \<open>Digits, separators and rounding\<close>
























section \<open>Properties of \<^verbatim>\<open>get_stock_data\<close>\<close>

text \<open>
  C2. When the ticker object is made and both the per-symbol history and the bulk download
  return an empty sequence, \<^verbatim>\<open>get_stock_data\<close> returns the error variant, which has no
  history, and its message (line 25) contains the requested symbol. The three calls are
  the only ones made.
\<close>

theorem no_data_when_both_empty:
  assumes "yf_Ticker p symbol w = (Inr stock, w1)"
    and "t_history p stock period w1 = (Inr [], w2)"
    and "yf_download p symbol period w2 = (Inr [], w3)"
  shows "get_stock_data p symbol period (w, evs) =
           (Failure (no_data_message symbol),
            (w3, evs @ [(Call_Ticker symbol, None), (Call_history period, None),
                        (Call_download symbol period, None)]))
         \<and> sublist symbol (no_data_message symbol)"
proof -
  have "fetch_body p symbol period (w, evs) =
          (Inr (Failure (no_data_message symbol)),
           (w3, evs @ [(Call_Ticker symbol, None), (Call_history period, None),
                       (Call_download symbol period, None)]))"
    unfolding fetch_body_def fetch_history_def
    by (simp add: then_do_invoke_Inr assms ret_def)
  moreover have "sublist symbol (no_data_message symbol)"
    unfolding no_data_message_def sublist_def by (metis append.assoc)
  ultimately show ?thesis
    by (simp add: get_stock_data_def try_except_def)
qed

theorem no_data_when_both_empty_witness:
  "yf_Ticker unknown_provider ''ZZZZ'' 0 = (Inr ''ZZZZ'', 1)
   \<and> t_history unknown_provider ''ZZZZ'' ''1y'' 1 = (Inr [], 2)
   \<and> yf_download unknown_provider ''ZZZZ'' ''1y'' 2 = (Inr [], 3)
   \<and> get_stock_data unknown_provider ''ZZZZ'' ''1y'' (0, []) =
       (Failure (no_data_message ''ZZZZ''),
        (3, [(Call_Ticker ''ZZZZ'', None), (Call_history ''1y'', None),
             (Call_download ''ZZZZ'' ''1y'', None)]))"
  using no_data_when_both_empty [of unknown_provider "''ZZZZ''" 0 "''ZZZZ''" 1 "''1y''" 2 3 "[]"]
  by (simp add: sample_defs)

text \<open>
  C4. Whatever the provider answers, a success result of \<^verbatim>\<open>get_stock_data\<close> carries a
  nonempty history.
\<close>

theorem success_has_history:
  "get_stock_data p symbol period s = (Success h i f r, s') \<Longrightarrow> h \<noteq> []"
proof -
  assume run: "get_stock_data p symbol period s = (Success h i f r, s')"
  obtain w evs where s: "s = (w, evs)" by (cases s)
  from get_stock_data_spec [of p symbol period w evs] run s
  have "fetched symbol (Success h i f r) \<or> (\<exists>e. Success h i f r = Failure (api_error_message e))"
    by (auto split: if_splits)
  then show "h \<noteq> []" by (simp add: fetched_def)
qed

theorem success_has_history_witness:
  "get_stock_data steady_provider ''AAPL'' ''1y'' (0, []) =
     (Success [flat_quote] [(''sector'', PyStr ''Technology'')] [] [],
      (2, [(Call_Ticker ''AAPL'', None), (Call_history ''1y'', None),
           (Call_hasattr Attr_info, None), (Call_getattr Attr_info, None),
           (Call_hasattr Attr_financials, None), (Call_getattr Attr_financials, None),
           (Call_hasattr Attr_recommendations, None), (Call_getattr Attr_recommendations, None)]))
   \<and> [flat_quote] \<noteq> []"
proof -
  have run: "get_stock_data steady_provider ''AAPL'' ''1y'' (0, []) =
     (Success [flat_quote] [(''sector'', PyStr ''Technology'')] [] [],
      (2, [(Call_Ticker ''AAPL'', None), (Call_history ''1y'', None),
           (Call_hasattr Attr_info, None), (Call_getattr Attr_info, None),
           (Call_hasattr Attr_financials, None), (Call_getattr Attr_financials, None),
           (Call_hasattr Attr_recommendations, None), (Call_getattr Attr_recommendations, None)]))"
    by (simp add: sample_defs run_defs)
  from success_has_history [OF run] run show ?thesis by simp
qed

text \<open>
  C3, as the code has it. A run of \<^verbatim>\<open>get_stock_data\<close> always returns a result and only
  adds to the log. Every exception raised by a call to the provider is either an
  \<^verbatim>\<open>AttributeError\<close> raised inside \<^verbatim>\<open>hasattr\<close> (lines 28 to 30), which is absorbed:
  the attribute becomes empty and the run goes on; or it is the last event of the run, and
  the result is the error variant whose message is the warning sign, \<^verbatim>\<open>API Error: \<close>
  and \<^verbatim>\<open>str(e)\<close>. When nothing but absorbed exceptions occurred, the result is the
  no-data error or a success with a nonempty history.
\<close>

theorem provider_faults_contained:
  "\<exists>r w' cs. get_stock_data p symbol period (w, evs) = (r, (w', evs @ cs)) \<and>
     (\<forall>c e. (c, Some e) \<in> set cs \<longrightarrow>
        absorbed (c, Some e) \<or> (last cs = (c, Some e) \<and> r = Failure (api_error_message e))) \<and>
     (list_all absorbed cs \<longrightarrow> fetched symbol r)"
proof -
  from get_stock_data_spec [of p symbol period w evs] obtain r w' cs where
    run: "get_stock_data p symbol period (w, evs) = (r, (w', evs @ cs))"
    and spec: "if list_all absorbed cs then fetched symbol r
      else list_all absorbed (butlast cs) \<and>
           (\<exists>e. snd (last cs) = Some e \<and> r = Failure (api_error_message e))"
    by blast
  have "absorbed (c, Some e) \<or> (last cs = (c, Some e) \<and> r = Failure (api_error_message e))"
    if mem: "(c, Some e) \<in> set cs" for c e
  proof (cases "list_all absorbed cs")
    case True
    with mem show ?thesis by (auto simp: list_all_iff)
  next
    case False
    with spec obtain e' where bl: "list_all absorbed (butlast cs)"
      and last: "snd (last cs) = Some e'" and r: "r = Failure (api_error_message e')"
      by auto
    from mem have ne: "cs \<noteq> []" by auto
    then have "cs = butlast cs @ [last cs]" by simp
    with mem have "(c, Some e) \<in> set (butlast cs) \<or> (c, Some e) = last cs"
      by (metis Un_iff empty_iff empty_set set_ConsD set_append)
    then show ?thesis
    proof
      assume "(c, Some e) \<in> set (butlast cs)"
      with bl show ?thesis by (auto simp: list_all_iff)
    next
      assume eq: "(c, Some e) = last cs"
      with last have "e' = e" by (metis option.inject snd_conv)
      with eq r show ?thesis by simp
    qed
  qed
  moreover have "list_all absorbed cs \<longrightarrow> fetched symbol r"
    using spec by auto
  ultimately show ?thesis using run by blast
qed

theorem provider_faults_contained_witness:
  "get_stock_data limited_provider ''AAPL'' ''1y'' (0, []) =
     (Failure (api_error_message (Exception ''Too Many Requests'')),
      (2, [(Call_Ticker ''AAPL'', None), (Call_history ''1y'', None),
           (Call_hasattr Attr_info, Some (Exception ''Too Many Requests''))]))
   \<and> \<not> absorbed (Call_hasattr Attr_info, Some (Exception ''Too Many Requests''))
   \<and> get_stock_data steady_provider ''AAPL'' ''1y'' (0, []) = (steady_result, (2, steady_events))
   \<and> list_all absorbed steady_events
   \<and> fetched ''AAPL'' steady_result"
proof -
  have limited: "get_stock_data limited_provider ''AAPL'' ''1y'' (0, []) =
     (Failure (api_error_message (Exception ''Too Many Requests'')),
      (2, [(Call_Ticker ''AAPL'', None), (Call_history ''1y'', None),
           (Call_hasattr Attr_info, Some (Exception ''Too Many Requests''))]))"
    by (simp add: sample_defs run_defs)
  have steady: "get_stock_data steady_provider ''AAPL'' ''1y'' (0, []) =
      (steady_result, (2, steady_events))"
    by (simp add: sample_defs run_defs steady_result_def steady_events_def)
  have quiet: "list_all absorbed steady_events"
    by (simp add: steady_events_def)
  from provider_faults_contained [of steady_provider "''AAPL''" "''1y''" 0 "[]"] steady quiet
  have "fetched ''AAPL'' steady_result" by simp
  with limited steady quiet show ?thesis by simp
qed

text \<open>
  C3 as stated fails: a provider whose \<^verbatim>\<open>info\<close> raises \<^verbatim>\<open>AttributeError\<close> gets a success
  result with an empty profile, not the error variant.
\<close>

theorem attribute_error_absorbed_counterexample:
  "fst (t_info bare_provider ''AAPL'' 2) = Inl (AttributeError ''info'')
   \<and> get_stock_data bare_provider ''AAPL'' ''1y'' (0, []) =
       (Success [flat_quote] [] [] [],
        (2, [(Call_Ticker ''AAPL'', None), (Call_history ''1y'', None),
             (Call_hasattr Attr_info, Some (AttributeError ''info'')),
             (Call_hasattr Attr_financials, None), (Call_getattr Attr_financials, None),
             (Call_hasattr Attr_recommendations, None), (Call_getattr Attr_recommendations, None)]))"
  by (simp add: sample_defs run_defs)

text \<open>
  C1, as the code has it. Let the ticker object be made and the per-symbol history return
  \<open>h1\<close>. If \<open>h1\<close> is nonempty, the bulk download is never called, and the result is a
  success with history \<open>h1\<close> provided that no exception other than an \<^verbatim>\<open>AttributeError\<close>
  absorbed by \<^verbatim>\<open>hasattr\<close> was raised while the three attributes were read. If \<open>h1\<close> is
  empty and the bulk download returns a nonempty \<open>h2\<close>, the result is a success with
  history \<open>h2\<close> under the same proviso.
\<close>

theorem two_tier_retrieval:
  assumes "yf_Ticker p symbol w = (Inr stock, w1)"
    and "t_history p stock period w1 = (Inr h1, w2)"
  shows "\<exists>r w' cs. get_stock_data p symbol period (w, evs) = (r, (w', evs @ cs)) \<and>
     (h1 \<noteq> [] \<longrightarrow> \<not> list_ex is_download cs
         \<and> (list_all absorbed cs \<longrightarrow> (\<exists>i f r'. r = Success h1 i f r'))) \<and>
     (\<forall>h2 w3. h1 = [] \<longrightarrow> yf_download p symbol period w2 = (Inr h2, w3) \<longrightarrow> h2 \<noteq> [] \<longrightarrow>
         list_all absorbed cs \<longrightarrow> (\<exists>i f r'. r = Success h2 i f r'))"
proof (cases "h1 = []")
  case False
  from get_stock_data_after_history [OF assms False, of evs] False show ?thesis by blast
next
  case True
  obtain r s' where run: "get_stock_data p symbol period (w, evs) = (r, s')"
    by (cases "get_stock_data p symbol period (w, evs)")
  from get_stock_data_spec [of p symbol period w evs] run obtain w' cs where
    s': "s' = (w', evs @ cs)" by auto
  have "\<exists>i f r'. r = Success h2 i f r'"
    if "yf_download p symbol period w2 = (Inr h2, w3)" "h2 \<noteq> []" "list_all absorbed cs" for h2 w3
  proof -
    from get_stock_data_after_download [OF assms(1) assms(2) [unfolded True] that(1) that(2), of evs]
    obtain r2 w2' cs2 where "get_stock_data p symbol period (w, evs) = (r2, (w2', evs @ cs2))"
      and "list_all absorbed cs2 \<longrightarrow> (\<exists>i f r'. r2 = Success h2 i f r')"
      by blast
    with run s' that(3) show ?thesis by simp
  qed
  with run s' True show ?thesis by blast
qed

theorem two_tier_retrieval_witness:
  "(yf_Ticker steady_provider ''AAPL'' 0 = (Inr ''AAPL'', 1)
    \<and> t_history steady_provider ''AAPL'' ''1y'' 1 = (Inr [flat_quote], 2)
    \<and> [flat_quote] \<noteq> []
    \<and> (\<exists>r w' cs. get_stock_data steady_provider ''AAPL'' ''1y'' (0, []) = (r, (w', cs))
          \<and> \<not> list_ex is_download cs \<and> list_all absorbed cs
          \<and> (\<exists>i f r'. r = Success [flat_quote] i f r')))
   \<and> (yf_Ticker fallback_provider ''AAPL'' 0 = (Inr ''AAPL'', 1)
    \<and> t_history fallback_provider ''AAPL'' ''1y'' 1 = (Inr [], 2)
    \<and> yf_download fallback_provider ''AAPL'' ''1y'' 2 = (Inr [flat_quote], 3)
    \<and> (\<exists>r w' cs. get_stock_data fallback_provider ''AAPL'' ''1y'' (0, []) = (r, (w', cs))
          \<and> list_ex is_download cs \<and> list_all absorbed cs
          \<and> (\<exists>i f r'. r = Success [flat_quote] i f r')))"
  using two_tier_retrieval [of steady_provider "''AAPL''" 0 "''AAPL''" 1 "''1y''" "[flat_quote]" 2 "[]"]
    two_tier_retrieval [of fallback_provider "''AAPL''" 0 "''AAPL''" 1 "''1y''" "[]" 2 "[]"]
  by (simp add: sample_defs run_defs)

text \<open>
  C1 as stated fails: the per-symbol history is nonempty, reading \<^verbatim>\<open>info\<close> raises, and
  the result is the error variant.
\<close>

theorem metadata_fault_counterexample:
  "yf_Ticker limited_provider ''AAPL'' 0 = (Inr ''AAPL'', 1)
   \<and> t_history limited_provider ''AAPL'' ''1y'' 1 = (Inr [flat_quote], 2)
   \<and> fst (get_stock_data limited_provider ''AAPL'' ''1y'' (0, [])) =
       Failure (api_error_message (Exception ''Too Many Requests''))"
  by (simp add: sample_defs run_defs)


section \<open>The cache\<close>

text \<open>
  C5. After a call for (symbol, period) the cache holds an entry for that key with the
  result of the call, and the call itself ran \<^verbatim>\<open>get_stock_data\<close> at most once. A second
  call for the same key while the clock is within 3600 seconds of the entry's creation
  returns the same result and leaves cache, world and log as they are: no call to the
  provider. A second call once 3600 seconds have passed runs \<^verbatim>\<open>get_stock_data\<close> again,
  starting with a new ticker object, and stores what it returns.
\<close>

theorem cache_within_and_after_ttl:
  assumes "cached_get_stock_data p clock symbol period c s = (r1, c1, s1)"
  shows "\<exists>created. c1 (symbol, period) = Some (r1, created)
     \<and> (s1 = s \<or> get_stock_data p symbol period s = (r1, s1))
     \<and> (\<forall>s2. clock (fst s2) < created + 3600 \<longrightarrow>
           cached_get_stock_data p clock symbol period c1 s2 = (r1, c1, s2))
     \<and> (\<forall>w2 evs2. created + 3600 \<le> clock w2 \<longrightarrow>
           (\<exists>r2 c2 w3 e cs.
              cached_get_stock_data p clock symbol period c1 (w2, evs2) =
                (r2, c2, (w3, evs2 @ (Call_Ticker symbol, e) # cs))
              \<and> get_stock_data p symbol period (w2, evs2) =
                (r2, (w3, evs2 @ (Call_Ticker symbol, e) # cs))
              \<and> c2 (symbol, period) = Some (r2, clock w3)))"
proof -
  have entry: "\<exists>created. c1 (symbol, period) = Some (r1, created)
      \<and> (s1 = s \<or> get_stock_data p symbol period s = (r1, s1))"
    using assms
    by (auto simp: cached_get_stock_data_def fetch_and_store_def live_def
        split: option.splits prod.splits if_splits)
  then obtain created where c1: "c1 (symbol, period) = Some (r1, created)"
    and once: "s1 = s \<or> get_stock_data p symbol period s = (r1, s1)"
    by blast
  have hit: "cached_get_stock_data p clock symbol period c1 s2 = (r1, c1, s2)"
    if "clock (fst s2) < created + 3600" for s2
    using that c1 by (simp add: cached_get_stock_data_def live_def cache_ttl_def)
  have miss: "\<exists>r2 c2 w3 e cs.
              cached_get_stock_data p clock symbol period c1 (w2, evs2) =
                (r2, c2, (w3, evs2 @ (Call_Ticker symbol, e) # cs))
              \<and> get_stock_data p symbol period (w2, evs2) =
                (r2, (w3, evs2 @ (Call_Ticker symbol, e) # cs))
              \<and> c2 (symbol, period) = Some (r2, clock w3)"
    if "created + 3600 \<le> clock w2" for w2 evs2
  proof -
    from get_stock_data_calls_Ticker [of p symbol period w2 evs2] obtain r2 w3 e cs where
      run: "get_stock_data p symbol period (w2, evs2) = (r2, (w3, evs2 @ (Call_Ticker symbol, e) # cs))"
      by blast
    have "cached_get_stock_data p clock symbol period c1 (w2, evs2) =
        (r2, c1((symbol, period) \<mapsto> (r2, clock w3)), (w3, evs2 @ (Call_Ticker symbol, e) # cs))"
      using that c1 run
      by (simp add: cached_get_stock_data_def fetch_and_store_def live_def cache_ttl_def)
    with run show ?thesis by force
  qed
  from c1 once hit miss show ?thesis by blast
qed

theorem cache_within_and_after_ttl_witness:
  "cached_get_stock_data steady_provider wall_clock ''AAPL'' ''1y'' Map.empty (0, []) =
     (steady_result, steady_cache, (2, steady_events))
   \<and> wall_clock 100 < 2 + 3600
   \<and> cached_get_stock_data steady_provider wall_clock ''AAPL'' ''1y'' steady_cache (100, steady_events) =
       (steady_result, steady_cache, (100, steady_events))
   \<and> 2 + 3600 \<le> wall_clock 4000
   \<and> (\<exists>c2 e cs. cached_get_stock_data steady_provider wall_clock ''AAPL'' ''1y'' steady_cache (4000, steady_events) =
       (steady_result, c2, (4002, steady_events @ (Call_Ticker ''AAPL'', e) # cs))
       \<and> c2 (''AAPL'', ''1y'') = Some (steady_result, 4002))"
proof -
  have first: "cached_get_stock_data steady_provider wall_clock ''AAPL'' ''1y'' Map.empty (0, []) =
     (steady_result, steady_cache, (2, steady_events))"
    by (simp add: cached_get_stock_data_def fetch_and_store_def sample_defs run_defs
        steady_result_def steady_cache_def steady_events_def wall_clock_def)
  have fresh: "get_stock_data steady_provider ''AAPL'' ''1y'' (4000, steady_events) =
     (steady_result, (4002, steady_events @ steady_events))"
    by (simp add: sample_defs run_defs steady_result_def steady_events_def)
  from cache_within_and_after_ttl [OF first] obtain created where
    entry: "steady_cache (''AAPL'', ''1y'') = Some (steady_result, created)"
    and hit: "\<And>s2. wall_clock (fst s2) < created + 3600 \<Longrightarrow>
       cached_get_stock_data steady_provider wall_clock ''AAPL'' ''1y'' steady_cache s2 =
         (steady_result, steady_cache, s2)"
    and miss: "\<And>w2 evs2. created + 3600 \<le> wall_clock w2 \<Longrightarrow>
       \<exists>r2 c2 w3 e cs.
         cached_get_stock_data steady_provider wall_clock ''AAPL'' ''1y'' steady_cache (w2, evs2) =
           (r2, c2, (w3, evs2 @ (Call_Ticker ''AAPL'', e) # cs))
         \<and> get_stock_data steady_provider ''AAPL'' ''1y'' (w2, evs2) =
           (r2, (w3, evs2 @ (Call_Ticker ''AAPL'', e) # cs))
         \<and> c2 (''AAPL'', ''1y'') = Some (r2, wall_clock w3)"
    by blast
  from entry have created: "created = 2" by (simp add: steady_cache_def)
  have h: "cached_get_stock_data steady_provider wall_clock ''AAPL'' ''1y'' steady_cache (100, steady_events) =
       (steady_result, steady_cache, (100, steady_events))"
    using hit [of "(100, steady_events)"] created by (simp add: wall_clock_def)
  from miss [of 4000 steady_events] created obtain r2 c2 w3 e cs where
    m: "cached_get_stock_data steady_provider wall_clock ''AAPL'' ''1y'' steady_cache (4000, steady_events) =
           (r2, c2, (w3, steady_events @ (Call_Ticker ''AAPL'', e) # cs))"
    and g: "get_stock_data steady_provider ''AAPL'' ''1y'' (4000, steady_events) =
           (r2, (w3, steady_events @ (Call_Ticker ''AAPL'', e) # cs))"
    and c: "c2 (''AAPL'', ''1y'') = Some (r2, wall_clock w3)"
    by (auto simp: wall_clock_def)
  from g fresh have "r2 = steady_result" "w3 = 4002" by simp_all
  with m c have "\<exists>c2 e cs. cached_get_stock_data steady_provider wall_clock ''AAPL'' ''1y'' steady_cache (4000, steady_events) =
       (steady_result, c2, (4002, steady_events @ (Call_Ticker ''AAPL'', e) # cs))
       \<and> c2 (''AAPL'', ''1y'') = Some (steady_result, 4002)"
    by (auto simp: wall_clock_def)
  with first h show ?thesis by (simp add: wall_clock_def)
qed


section \<open>Properties of the technical analysis\<close>









section \<open>Properties of the report\<close>





section \<open>Properties of the company table\<close>

text \<open>
  C8, as the code has it. For the empty profile \<^verbatim>\<open>display_company_info\<close> returns the
  sentence of line 65, not a table, and does not fail. For a nonempty profile in which
  neither \<^verbatim>\<open>marketCap\<close> nor \<^verbatim>\<open>dividendYield\<close> is a nonempty string, it returns the table of
  six rows; each row is computed from its own key alone: the four plain rows are the value
  of their key or \<^verbatim>\<open>'N/A'\<close> when the key is absent, the market cap is \<^verbatim>\<open>'N/A'\<close> and the
  dividend yield \<^verbatim>\<open>'0%'\<close> when their key is absent, and both are what the function computes
  for the profile that holds nothing but that one key.
\<close>

theorem display_company_info_fields:
  "display_company_info F [] = Inr (Message ''No company information available'')
   \<and> (info \<noteq> [] \<longrightarrow> \<not> nonempty_str (dict_get1 info ''marketCap'')
        \<longrightarrow> \<not> nonempty_str (dict_get1 info ''dividendYield'')
        \<longrightarrow> (\<exists>sector industry market_cap pe eps dividend_yield.
              display_company_info F info =
                Inr (Table [(''Sector'', sector), (''Industry'', industry),
                            (''Market Cap'', market_cap), (''PE Ratio'', pe), (''EPS'', eps),
                            (''Dividend Yield'', dividend_yield)])
              \<and> sector = (case map_of info ''sector'' of None \<Rightarrow> PyStr ''N/A'' | Some v \<Rightarrow> v)
              \<and> industry = (case map_of info ''industry'' of None \<Rightarrow> PyStr ''N/A'' | Some v \<Rightarrow> v)
              \<and> pe = (case map_of info ''trailingPE'' of None \<Rightarrow> PyStr ''N/A'' | Some v \<Rightarrow> v)
              \<and> eps = (case map_of info ''trailingEps'' of None \<Rightarrow> PyStr ''N/A'' | Some v \<Rightarrow> v)
              \<and> (map_of info ''marketCap'' = None \<longrightarrow> market_cap = PyStr ''N/A'')
              \<and> (map_of info ''dividendYield'' = None \<longrightarrow> dividend_yield = PyStr ''0%'')
              \<and> Inr market_cap = market_cap_field F [(''marketCap'', dict_get1 info ''marketCap'')]
              \<and> Inr dividend_yield =
                  dividend_yield_field [(''dividendYield'', dict_get1 info ''dividendYield'')]))"
proof (intro conjI impI)
  show "display_company_info F [] = Inr (Message ''No company information available'')"
    by (simp add: display_company_info_def)
next
  assume ne: "info \<noteq> []"
    and mc: "\<not> nonempty_str (dict_get1 info ''marketCap'')"
    and dy: "\<not> nonempty_str (dict_get1 info ''dividendYield'')"
  from market_cap_field_returns [OF mc] obtain market_cap where
    m: "market_cap_field F info = Inr market_cap" by blast
  from dividend_yield_field_returns [OF dy] obtain dividend_yield where
    d: "dividend_yield_field info = Inr dividend_yield" by blast
  have m_own: "market_cap_field F [(''marketCap'', dict_get1 info ''marketCap'')] = market_cap_field F info"
    by (simp add: market_cap_field_cases dict_get1_def dict_get_def not_available_def
        split: option.splits)
  have d_own: "dividend_yield_field [(''dividendYield'', dict_get1 info ''dividendYield'')]
      = dividend_yield_field info"
    by (simp add: dividend_yield_field_cases dict_get1_def dict_get_def split: option.splits)
  have "map_of info ''marketCap'' = None \<longrightarrow> market_cap = PyStr ''N/A''"
    using m by (auto simp: market_cap_field_cases not_available_def)
  moreover have "map_of info ''dividendYield'' = None \<longrightarrow> dividend_yield = PyStr ''0%''"
    using d by (auto simp: dividend_yield_field_cases)
  ultimately show "\<exists>sector industry market_cap pe eps dividend_yield.
              display_company_info F info =
                Inr (Table [(''Sector'', sector), (''Industry'', industry),
                            (''Market Cap'', market_cap), (''PE Ratio'', pe), (''EPS'', eps),
                            (''Dividend Yield'', dividend_yield)])
              \<and> sector = (case map_of info ''sector'' of None \<Rightarrow> PyStr ''N/A'' | Some v \<Rightarrow> v)
              \<and> industry = (case map_of info ''industry'' of None \<Rightarrow> PyStr ''N/A'' | Some v \<Rightarrow> v)
              \<and> pe = (case map_of info ''trailingPE'' of None \<Rightarrow> PyStr ''N/A'' | Some v \<Rightarrow> v)
              \<and> eps = (case map_of info ''trailingEps'' of None \<Rightarrow> PyStr ''N/A'' | Some v \<Rightarrow> v)
              \<and> (map_of info ''marketCap'' = None \<longrightarrow> market_cap = PyStr ''N/A'')
              \<and> (map_of info ''dividendYield'' = None \<longrightarrow> dividend_yield = PyStr ''0%'')
              \<and> Inr market_cap = market_cap_field F [(''marketCap'', dict_get1 info ''marketCap'')]
              \<and> Inr dividend_yield =
                  dividend_yield_field [(''dividendYield'', dict_get1 info ''dividendYield'')]"
    using display_nonempty [OF ne m d] m d m_own d_own
    by (simp add: dict_get_def not_available_def)
qed

theorem display_company_info_fields_witness:
  "[(''sector'', PyStr ''Technology'')] \<noteq> []
   \<and> \<not> nonempty_str (dict_get1 [(''sector'', PyStr ''Technology'')] ''marketCap'')
   \<and> \<not> nonempty_str (dict_get1 [(''sector'', PyStr ''Technology'')] ''dividendYield'')
   \<and> map_of [(''sector'', PyStr ''Technology'')] ''marketCap'' = None
   \<and> map_of [(''sector'', PyStr ''Technology'')] ''dividendYield'' = None
   \<and> display_company_info whole_floats [(''sector'', PyStr ''Technology'')] =
       Inr (Table [(''Sector'', PyStr ''Technology''), (''Industry'', PyStr ''N/A''),
                   (''Market Cap'', PyStr ''N/A''), (''PE Ratio'', PyStr ''N/A''),
                   (''EPS'', PyStr ''N/A''), (''Dividend Yield'', PyStr ''0%'')])"
  using display_company_info_fields [of whole_floats "[(''sector'', PyStr ''Technology'')]"]
  by (auto simp: dict_get1_def dict_get_def)

text \<open>
  C8 as stated fails: the empty profile gets the sentence, not a table of placeholders; and
  a profile whose \<^verbatim>\<open>marketCap\<close> is a string makes line 70 raise.
\<close>

theorem empty_profile_counterexample:
  "display_company_info whole_floats [] = Inr (Message ''No company information available'')
   \<and> display_company_info whole_floats [(''marketCap'', PyStr ''2.5T'')] = Inl comma_with_str"
  by (simp add: display_company_info_def market_cap_field_def dict_get1_def dict_get_def
      and_then_def)






end
